theory Spec2Isabelle
  imports Main
begin

section \<open>Feature types of an EOPatch (eolearn/core/feature_types.py)\<close>

subsection \<open>The enumeration\<close>

text \<open>
  \<^verbatim>\<open>class FeatureType(Enum)\<close> declares thirteen members, in this order. A Python
  enumeration member is a singleton, so identity (\<^verbatim>\<open>is\<close>), equality and hashing of
  members all agree with equality of the constructors below.
\<close>

datatype FeatureType =
    DATA
  | MASK
  | SCALAR
  | LABEL
  | VECTOR
  | DATA_TIMELESS
  | MASK_TIMELESS
  | SCALAR_TIMELESS
  | LABEL_TIMELESS
  | VECTOR_TIMELESS
  | META_INFO
  | BBOX
  | TIMESTAMP

text \<open>
  The class object \<^verbatim>\<open>cls\<close>: the members in definition order, each with its
  \<^verbatim>\<open>.value\<close>. Iterating over the class (\<^verbatim>\<open>for item in cls\<close>) visits the entries in
  this order.
\<close>

type_synonym enum_cls = "(FeatureType \<times> string) list"

definition FeatureType_cls :: enum_cls where
  "FeatureType_cls =
     [(DATA, ''data''),
      (MASK, ''mask''),
      (SCALAR, ''scalar''),
      (LABEL, ''label''),
      (VECTOR, ''vector''),
      (DATA_TIMELESS, ''data_timeless''),
      (MASK_TIMELESS, ''mask_timeless''),
      (SCALAR_TIMELESS, ''scalar_timeless''),
      (LABEL_TIMELESS, ''label_timeless''),
      (VECTOR_TIMELESS, ''vector_timeless''),
      (META_INFO, ''meta_info''),
      (BBOX, ''bbox''),
      (TIMESTAMP, ''timestamp'')]"

text \<open>The exceptions that the modelled operations can raise.\<close>

datatype error = ValueError | KeyError

subsection \<open>Class-level operations\<close>

text \<open>
  \<^verbatim>\<open>has_value(cls, value)\<close> is \<^verbatim>\<open>any(value == item.value for item in cls)\<close>.
\<close>

definition has_value :: "enum_cls \<Rightarrow> string \<Rightarrow> bool" where
  "has_value cls v = list_ex (\<lambda>item. v = snd item) cls"

text \<open>
  Construction by value, \<^verbatim>\<open>FeatureType(v)\<close>. The class inherits it from \<^verbatim>\<open>Enum\<close>
  unchanged (no \<^verbatim>\<open>_missing_\<close> hook is defined): the member whose value equals \<^verbatim>\<open>v\<close> is
  returned, and when there is none a \<^verbatim>\<open>ValueError\<close> is raised.
\<close>

fun lookup_member :: "enum_cls \<Rightarrow> string \<Rightarrow> FeatureType option" where
  "lookup_member [] v = None"
| "lookup_member (item # items) v =
     (if snd item = v then Some (fst item) else lookup_member items v)"

definition FeatureType_call :: "enum_cls \<Rightarrow> string \<Rightarrow> error + FeatureType" where
  "FeatureType_call cls v =
     (case lookup_member cls v of
        Some member \<Rightarrow> Inr member
      | None \<Rightarrow> Inl ValueError)"

subsection \<open>Classification predicates\<close>

text \<open>Each predicate tests membership of \<^verbatim>\<open>self\<close> in a \<^verbatim>\<open>frozenset\<close> built from a list.\<close>

definition is_spatial :: "FeatureType \<Rightarrow> bool" where
  "is_spatial self \<longleftrightarrow>
     self \<in> set [DATA, MASK, VECTOR, DATA_TIMELESS, MASK_TIMELESS, VECTOR_TIMELESS]"

definition is_time_dependent :: "FeatureType \<Rightarrow> bool" where
  "is_time_dependent self \<longleftrightarrow> self \<in> set [DATA, MASK, SCALAR, LABEL, VECTOR]"

definition is_discrete :: "FeatureType \<Rightarrow> bool" where
  "is_discrete self \<longleftrightarrow> self \<in> set [MASK, MASK_TIMELESS, LABEL, LABEL_TIMELESS]"

definition is_vector :: "FeatureType \<Rightarrow> bool" where
  "is_vector self \<longleftrightarrow> self \<in> set [VECTOR, VECTOR_TIMELESS]"

definition has_dict :: "FeatureType \<Rightarrow> bool" where
  "has_dict self \<longleftrightarrow> self \<notin> set [TIMESTAMP, BBOX]"

definition contains_ndarrays :: "FeatureType \<Rightarrow> bool" where
  "contains_ndarrays self \<longleftrightarrow>
     self \<in> set [DATA, MASK, SCALAR, LABEL,
                 DATA_TIMELESS, MASK_TIMELESS, SCALAR_TIMELESS, LABEL_TIMELESS]"

subsection \<open>Rank and container type\<close>

text \<open>
  The dictionary literal of \<^verbatim>\<open>ndim\<close>, in source order. Subscripting it with a key it
  does not hold raises \<^verbatim>\<open>KeyError\<close>; \<^verbatim>\<open>ndim\<close> returns \<^verbatim>\<open>None\<close> without consulting it
  when \<^verbatim>\<open>contains_ndarrays\<close> is false.
\<close>

definition ndim_dict :: "(FeatureType \<times> int) list" where
  "ndim_dict =
     [(DATA, 4),
      (MASK, 4),
      (SCALAR, 2),
      (LABEL, 2),
      (DATA_TIMELESS, 3),
      (MASK_TIMELESS, 3),
      (SCALAR_TIMELESS, 1),
      (LABEL_TIMELESS, 1)]"

definition ndim :: "FeatureType \<Rightarrow> error + int option" where
  "ndim self =
     (if contains_ndarrays self then
        (case map_of ndim_dict self of
           Some n \<Rightarrow> Inr (Some n)
         | None \<Rightarrow> Inl KeyError)
      else Inr None)"

text \<open>The three Python types that \<^verbatim>\<open>type\<close> can return.\<close>

datatype py_type = Py_list | Py_object | Py_dict

definition type :: "FeatureType \<Rightarrow> py_type" where
  "type self =
     (if self = TIMESTAMP then Py_list
      else if self = BBOX then Py_object
      else Py_dict)"

subsection \<open>The operations as calls on the class\<close>

text \<open>
  Every operation of the module, run against the class object. The class is threaded
  through each call and handed back as the call leaves it; no method body assigns to a
  member, to a value or to the class, so each call hands back the class it received.
\<close>

datatype call =
    Call_has_value string
  | Call_FeatureType string
  | Call_is_spatial FeatureType
  | Call_is_time_dependent FeatureType
  | Call_is_discrete FeatureType
  | Call_is_vector FeatureType
  | Call_has_dict FeatureType
  | Call_contains_ndarrays FeatureType
  | Call_ndim FeatureType
  | Call_type FeatureType

datatype outcome =
    Bool_result bool
  | Member_result "error + FeatureType"
  | Ndim_result "error + int option"
  | Type_result py_type

fun run :: "call \<Rightarrow> enum_cls \<Rightarrow> outcome \<times> enum_cls" where
  "run (Call_has_value v) cls = (Bool_result (has_value cls v), cls)"
| "run (Call_FeatureType v) cls = (Member_result (FeatureType_call cls v), cls)"
| "run (Call_is_spatial self) cls = (Bool_result (is_spatial self), cls)"
| "run (Call_is_time_dependent self) cls = (Bool_result (is_time_dependent self), cls)"
| "run (Call_is_discrete self) cls = (Bool_result (is_discrete self), cls)"
| "run (Call_is_vector self) cls = (Bool_result (is_vector self), cls)"
| "run (Call_has_dict self) cls = (Bool_result (has_dict self), cls)"
| "run (Call_contains_ndarrays self) cls = (Bool_result (contains_ndarrays self), cls)"
| "run (Call_ndim self) cls = (Ndim_result (ndim self), cls)"
| "run (Call_type self) cls = (Type_result (type self), cls)"

text \<open>A sequence of calls, each run on the class the previous one left.\<close>

fun run_all :: "call list \<Rightarrow> enum_cls \<Rightarrow> outcome list \<times> enum_cls" where
  "run_all [] cls = ([], cls)"
| "run_all (c # cs) cls =
     (case run c cls of (r, cls') \<Rightarrow>
        (case run_all cs cls' of (rs, cls'') \<Rightarrow> (r # rs, cls'')))"

section \<open>Properties\<close>

lemma FeatureType_exhaustive:
  "ft \<in> set (map fst FeatureType_cls)"
  by (cases ft) (simp_all add: FeatureType_cls_def)

lemma run_keeps_cls: "snd (run c cls) = cls"
  by (cases c) simp_all

lemma run_all_keeps_cls: "snd (run_all cs cls) = cls"
proof (induction cs arbitrary: cls)
  case Nil
  show ?case by simp
next
  case (Cons c cs)
  obtain r cls' where step: "run c cls = (r, cls')"
    by (cases "run c cls")
  from run_keeps_cls [of c cls] step have same: "cls' = cls"
    by simp
  obtain rs cls'' where rest: "run_all cs cls = (rs, cls'')"
    by (cases "run_all cs cls")
  from Cons.IH [of cls] rest have "cls'' = cls"
    by simp
  with step same rest show ?case
    by simp
qed

lemma lookup_member_None:
  "lookup_member cls v = None \<longleftrightarrow> v \<notin> set (map snd cls)"
  by (induction cls) auto

lemma lookup_member_Some:
  "distinct (map snd cls) \<Longrightarrow>
   lookup_member cls v = Some m \<longleftrightarrow> (m, v) \<in> set cls"
proof (induction cls)
  case Nil
  show ?case by simp
next
  case (Cons item items)
  obtain m' v' where item: "item = (m', v')"
    by (cases item)
  from Cons.prems item have fresh: "v' \<notin> snd ` set items" and rest: "distinct (map snd items)"
    by simp_all
  show ?case
  proof (cases "v' = v")
    case True
    with fresh have "(m, v) \<notin> set items"
      by force
    with True item show ?thesis
      by auto
  next
    case False
    with item Cons.IH [OF rest] show ?thesis
      by simp
  qed
qed

lemma FeatureType_cls_values:
  "map snd FeatureType_cls =
     [''data'', ''mask'', ''scalar'', ''label'', ''vector'',
      ''data_timeless'', ''mask_timeless'', ''scalar_timeless'',
      ''label_timeless'', ''vector_timeless'',
      ''meta_info'', ''bbox'', ''timestamp'']"
  by (simp add: FeatureType_cls_def)

lemma FeatureType_cls_values_distinct:
  "distinct (map snd FeatureType_cls)"
  unfolding FeatureType_cls_values by simp

text \<open>
  C1: \<^verbatim>\<open>has_value\<close> on the class is true for a string exactly when the string is one
  of the thirteen identifiers. The comparison is exact: the upper-case \<^verbatim>\<open>DATA\<close> and the
  empty string give false. The result is a plain Boolean for every string, so no input
  raises.
\<close>

theorem has_value_iff_reserved:
  "(has_value FeatureType_cls s \<longleftrightarrow>
      s \<in> set [''data'', ''mask'', ''scalar'', ''label'', ''vector'',
                ''data_timeless'', ''mask_timeless'', ''scalar_timeless'',
                ''label_timeless'', ''vector_timeless'',
                ''meta_info'', ''bbox'', ''timestamp''])
   \<and> has_value FeatureType_cls ''DATA'' = False
   \<and> has_value FeatureType_cls '''' = False
   \<and> has_value FeatureType_cls ''dat'' = False
   \<and> has_value FeatureType_cls ''data '' = False"
  by (auto simp add: has_value_def FeatureType_cls_def)


text \<open>
  C2: the rank of each of the eight array-backed feature types is the fixed one, and
  \<^verbatim>\<open>ndim\<close> returns \<^verbatim>\<open>None\<close> (neither zero nor an exception) for the other five.
\<close>

theorem ndim_values:
  "ndim DATA = Inr (Some 4)
   \<and> ndim MASK = Inr (Some 4)
   \<and> ndim SCALAR = Inr (Some 2)
   \<and> ndim LABEL = Inr (Some 2)
   \<and> ndim DATA_TIMELESS = Inr (Some 3)
   \<and> ndim MASK_TIMELESS = Inr (Some 3)
   \<and> ndim SCALAR_TIMELESS = Inr (Some 1)
   \<and> ndim LABEL_TIMELESS = Inr (Some 1)
   \<and> ndim VECTOR = Inr None
   \<and> ndim VECTOR_TIMELESS = Inr None
   \<and> ndim META_INFO = Inr None
   \<and> ndim BBOX = Inr None
   \<and> ndim TIMESTAMP = Inr None"
  by (simp add: ndim_def contains_ndarrays_def ndim_dict_def)

text \<open>
  C3: \<^verbatim>\<open>type\<close> returns \<^verbatim>\<open>list\<close> exactly for TIMESTAMP, \<^verbatim>\<open>object\<close> exactly for BBOX, and
  \<^verbatim>\<open>dict\<close> exactly for the eleven other feature types.
\<close>

theorem type_by_member:
  "(type ft = Py_list \<longleftrightarrow> ft = TIMESTAMP)
   \<and> (type ft = Py_object \<longleftrightarrow> ft = BBOX)
   \<and> (type ft = Py_dict \<longleftrightarrow>
        ft \<in> {DATA, MASK, SCALAR, LABEL, VECTOR, DATA_TIMELESS, MASK_TIMELESS,
              SCALAR_TIMELESS, LABEL_TIMELESS, VECTOR_TIMELESS, META_INFO})
   \<and> card {x. type x = Py_dict} = 11"
proof -
  have dicts: "{x. type x = Py_dict} =
      {DATA, MASK, SCALAR, LABEL, VECTOR, DATA_TIMELESS, MASK_TIMELESS,
       SCALAR_TIMELESS, LABEL_TIMELESS, VECTOR_TIMELESS, META_INFO}"
  proof (rule set_eqI)
    fix x show "x \<in> {x. type x = Py_dict} \<longleftrightarrow>
      x \<in> {DATA, MASK, SCALAR, LABEL, VECTOR, DATA_TIMELESS, MASK_TIMELESS,
           SCALAR_TIMELESS, LABEL_TIMELESS, VECTOR_TIMELESS, META_INFO}"
      by (cases x) (simp_all add: type_def)
  qed
  have "card {x. type x = Py_dict} = 11"
    unfolding dicts by simp
  moreover have "type ft = Py_list \<longleftrightarrow> ft = TIMESTAMP"
    by (cases ft) (simp_all add: type_def)
  moreover have "type ft = Py_object \<longleftrightarrow> ft = BBOX"
    by (cases ft) (simp_all add: type_def)
  moreover have "type ft = Py_dict \<longleftrightarrow>
        ft \<in> {DATA, MASK, SCALAR, LABEL, VECTOR, DATA_TIMELESS, MASK_TIMELESS,
              SCALAR_TIMELESS, LABEL_TIMELESS, VECTOR_TIMELESS, META_INFO}"
    by (cases ft) (simp_all add: type_def)
  ultimately show ?thesis by blast
qed


text \<open>
  C4: the enumeration has exactly thirteen members; their values are the thirteen fixed
  lower-case identifiers, in definition order, and no two members share a value. No
  operation of the module changes them: after any sequence of calls the class holds the
  same members with the same values.
\<close>

theorem identifiers_fixed_and_distinct:
  "length FeatureType_cls = 13
   \<and> map fst FeatureType_cls =
       [DATA, MASK, SCALAR, LABEL, VECTOR, DATA_TIMELESS, MASK_TIMELESS,
        SCALAR_TIMELESS, LABEL_TIMELESS, VECTOR_TIMELESS, META_INFO, BBOX, TIMESTAMP]
   \<and> distinct (map fst FeatureType_cls)
   \<and> set (map fst FeatureType_cls) = (UNIV :: FeatureType set)
   \<and> card (UNIV :: FeatureType set) = 13
   \<and> map snd FeatureType_cls =
       [''data'', ''mask'', ''scalar'', ''label'', ''vector'',
        ''data_timeless'', ''mask_timeless'', ''scalar_timeless'',
        ''label_timeless'', ''vector_timeless'',
        ''meta_info'', ''bbox'', ''timestamp'']
   \<and> distinct (map snd FeatureType_cls)
   \<and> (\<forall>c. snd (run c FeatureType_cls) = FeatureType_cls)
   \<and> (\<forall>cs. snd (run_all cs FeatureType_cls) = FeatureType_cls)"
proof -
  have len: "length FeatureType_cls = 13"
    by (simp add: FeatureType_cls_def)
  have members: "map fst FeatureType_cls =
       [DATA, MASK, SCALAR, LABEL, VECTOR, DATA_TIMELESS, MASK_TIMELESS,
        SCALAR_TIMELESS, LABEL_TIMELESS, VECTOR_TIMELESS, META_INFO, BBOX, TIMESTAMP]"
    by (simp add: FeatureType_cls_def)
  have dist_members: "distinct (map fst FeatureType_cls)"
    unfolding members by simp
  have all_members: "set (map fst FeatureType_cls) = (UNIV :: FeatureType set)"
    using FeatureType_exhaustive by blast
  have "card (set (map fst FeatureType_cls)) = length (map fst FeatureType_cls)"
    using dist_members by (rule distinct_card)
  then have count: "card (UNIV :: FeatureType set) = 13"
    using all_members len by simp
  have vals: "map snd FeatureType_cls =
       [''data'', ''mask'', ''scalar'', ''label'', ''vector'',
        ''data_timeless'', ''mask_timeless'', ''scalar_timeless'',
        ''label_timeless'', ''vector_timeless'',
        ''meta_info'', ''bbox'', ''timestamp'']"
    by (simp add: FeatureType_cls_def)
  have dist_vals: "distinct (map snd FeatureType_cls)"
    unfolding vals by simp
  show ?thesis
    using len members dist_members all_members count vals dist_vals
      run_keeps_cls run_all_keeps_cls
    by blast
qed

text \<open>
  C5: \<^verbatim>\<open>is_spatial\<close> is true exactly for DATA, MASK, VECTOR, DATA_TIMELESS,
  MASK_TIMELESS and VECTOR_TIMELESS, and false for the seven other feature types. It
  returns a Boolean for every member.
\<close>

theorem is_spatial_exactly_six:
  "(is_spatial ft \<longleftrightarrow>
      ft \<in> {DATA, MASK, VECTOR, DATA_TIMELESS, MASK_TIMELESS, VECTOR_TIMELESS})
   \<and> (is_spatial ft = False \<longleftrightarrow>
      ft \<in> {SCALAR, LABEL, SCALAR_TIMELESS, LABEL_TIMELESS, META_INFO, BBOX, TIMESTAMP})
   \<and> card {x. is_spatial x} = 6
   \<and> card {x. is_spatial x = False} = 7"
proof -
  have yes: "{x. is_spatial x} =
      {DATA, MASK, VECTOR, DATA_TIMELESS, MASK_TIMELESS, VECTOR_TIMELESS}"
    by (auto simp add: is_spatial_def)
  have no: "{x. is_spatial x = False} =
      {SCALAR, LABEL, SCALAR_TIMELESS, LABEL_TIMELESS, META_INFO, BBOX, TIMESTAMP}"
  proof (rule set_eqI)
    fix x show "x \<in> {x. is_spatial x = False} \<longleftrightarrow>
      x \<in> {SCALAR, LABEL, SCALAR_TIMELESS, LABEL_TIMELESS, META_INFO, BBOX, TIMESTAMP}"
      by (cases x) (simp_all add: is_spatial_def)
  qed
  have "card {x. is_spatial x} = 6"
    unfolding yes by simp
  moreover have "card {x. is_spatial x = False} = 7"
    unfolding no by simp
  moreover have "is_spatial ft \<longleftrightarrow>
      ft \<in> {DATA, MASK, VECTOR, DATA_TIMELESS, MASK_TIMELESS, VECTOR_TIMELESS}"
    using yes by blast
  moreover have "is_spatial ft = False \<longleftrightarrow>
      ft \<in> {SCALAR, LABEL, SCALAR_TIMELESS, LABEL_TIMELESS, META_INFO, BBOX, TIMESTAMP}"
    using no by blast
  ultimately show ?thesis by blast
qed

text \<open>
  C6: \<^verbatim>\<open>has_dict\<close> is false exactly for TIMESTAMP and BBOX, and true for the eleven
  other feature types.
\<close>

theorem has_dict_all_but_two:
  "(has_dict ft = False \<longleftrightarrow> ft \<in> {TIMESTAMP, BBOX})
   \<and> (has_dict ft \<longleftrightarrow>
        ft \<in> {DATA, MASK, SCALAR, LABEL, VECTOR, DATA_TIMELESS, MASK_TIMELESS,
              SCALAR_TIMELESS, LABEL_TIMELESS, VECTOR_TIMELESS, META_INFO})
   \<and> card {x. has_dict x = False} = 2
   \<and> card {x. has_dict x} = 11"
proof -
  have no: "{x. has_dict x = False} = {TIMESTAMP, BBOX}"
    by (auto simp add: has_dict_def)
  have yes: "{x. has_dict x} =
      {DATA, MASK, SCALAR, LABEL, VECTOR, DATA_TIMELESS, MASK_TIMELESS,
       SCALAR_TIMELESS, LABEL_TIMELESS, VECTOR_TIMELESS, META_INFO}"
  proof (rule set_eqI)
    fix x show "x \<in> {x. has_dict x} \<longleftrightarrow>
      x \<in> {DATA, MASK, SCALAR, LABEL, VECTOR, DATA_TIMELESS, MASK_TIMELESS,
           SCALAR_TIMELESS, LABEL_TIMELESS, VECTOR_TIMELESS, META_INFO}"
      by (cases x) (simp_all add: has_dict_def)
  qed
  have "card {x. has_dict x = False} = 2"
    unfolding no by simp
  moreover have "card {x. has_dict x} = 11"
    unfolding yes by simp
  moreover have "has_dict ft = False \<longleftrightarrow> ft \<in> {TIMESTAMP, BBOX}"
    using no by blast
  moreover have "has_dict ft \<longleftrightarrow>
        ft \<in> {DATA, MASK, SCALAR, LABEL, VECTOR, DATA_TIMELESS, MASK_TIMELESS,
              SCALAR_TIMELESS, LABEL_TIMELESS, VECTOR_TIMELESS, META_INFO}"
    using yes by blast
  ultimately show ?thesis by blast
qed

text \<open>
  C7: \<^verbatim>\<open>is_discrete\<close> is true exactly for MASK, MASK_TIMELESS, LABEL and
  LABEL_TIMELESS, and false for the nine other feature types.
\<close>

theorem is_discrete_exactly_four:
  "(is_discrete ft \<longleftrightarrow> ft \<in> {MASK, MASK_TIMELESS, LABEL, LABEL_TIMELESS})
   \<and> (is_discrete ft = False \<longleftrightarrow>
        ft \<in> {DATA, SCALAR, VECTOR, DATA_TIMELESS, SCALAR_TIMELESS, VECTOR_TIMELESS,
              META_INFO, BBOX, TIMESTAMP})
   \<and> card {x. is_discrete x} = 4
   \<and> card {x. is_discrete x = False} = 9"
proof -
  have yes: "{x. is_discrete x} = {MASK, MASK_TIMELESS, LABEL, LABEL_TIMELESS}"
    by (auto simp add: is_discrete_def)
  have no: "{x. is_discrete x = False} =
      {DATA, SCALAR, VECTOR, DATA_TIMELESS, SCALAR_TIMELESS, VECTOR_TIMELESS,
       META_INFO, BBOX, TIMESTAMP}"
  proof (rule set_eqI)
    fix x show "x \<in> {x. is_discrete x = False} \<longleftrightarrow>
      x \<in> {DATA, SCALAR, VECTOR, DATA_TIMELESS, SCALAR_TIMELESS, VECTOR_TIMELESS,
           META_INFO, BBOX, TIMESTAMP}"
      by (cases x) (simp_all add: is_discrete_def)
  qed
  have "card {x. is_discrete x} = 4"
    unfolding yes by simp
  moreover have "card {x. is_discrete x = False} = 9"
    unfolding no by simp
  moreover have "is_discrete ft \<longleftrightarrow> ft \<in> {MASK, MASK_TIMELESS, LABEL, LABEL_TIMELESS}"
    using yes by blast
  moreover have "is_discrete ft = False \<longleftrightarrow>
        ft \<in> {DATA, SCALAR, VECTOR, DATA_TIMELESS, SCALAR_TIMELESS, VECTOR_TIMELESS,
              META_INFO, BBOX, TIMESTAMP}"
    using no by blast
  ultimately show ?thesis by blast
qed


text \<open>
  C8: constructing a feature type from a string succeeds exactly when the string is one
  of the thirteen identifiers, and then yields the member that carries it. For every
  other string the construction raises \<^verbatim>\<open>ValueError\<close>, the invalid-value error, and
  it raises nothing else.
\<close>

theorem construction_succeeds_iff_reserved:
  "((\<exists>member. FeatureType_call FeatureType_cls s = Inr member) \<longleftrightarrow>
      s \<in> set [''data'', ''mask'', ''scalar'', ''label'', ''vector'',
                ''data_timeless'', ''mask_timeless'', ''scalar_timeless'',
                ''label_timeless'', ''vector_timeless'',
                ''meta_info'', ''bbox'', ''timestamp''])
   \<and> (FeatureType_call FeatureType_cls s = Inl ValueError \<longleftrightarrow>
      s \<notin> set [''data'', ''mask'', ''scalar'', ''label'', ''vector'',
                ''data_timeless'', ''mask_timeless'', ''scalar_timeless'',
                ''label_timeless'', ''vector_timeless'',
                ''meta_info'', ''bbox'', ''timestamp''])
   \<and> (\<forall>member. FeatureType_call FeatureType_cls s = Inr member \<longleftrightarrow>
        (member, s) \<in> set FeatureType_cls)
   \<and> FeatureType_call FeatureType_cls s \<noteq> Inl KeyError"
proof -
  have missing: "FeatureType_call FeatureType_cls s = Inl ValueError \<longleftrightarrow>
      s \<notin> set (map snd FeatureType_cls)"
    using lookup_member_None [of FeatureType_cls s]
    by (cases "lookup_member FeatureType_cls s") (simp_all add: FeatureType_call_def)
  have which: "FeatureType_call FeatureType_cls s = Inr member \<longleftrightarrow>
        (member, s) \<in> set FeatureType_cls" for member
    using lookup_member_Some [OF FeatureType_cls_values_distinct, of s member]
    by (cases "lookup_member FeatureType_cls s") (simp_all add: FeatureType_call_def)
  have found: "(\<exists>member. FeatureType_call FeatureType_cls s = Inr member) \<longleftrightarrow>
      s \<in> set (map snd FeatureType_cls)"
  proof -
    have "(\<exists>member. FeatureType_call FeatureType_cls s = Inr member) \<longleftrightarrow>
        lookup_member FeatureType_cls s \<noteq> None"
      by (cases "lookup_member FeatureType_cls s") (simp_all add: FeatureType_call_def)
    with lookup_member_None [of FeatureType_cls s] show ?thesis
      by simp
  qed
  have other: "FeatureType_call FeatureType_cls s \<noteq> Inl KeyError"
    by (cases "lookup_member FeatureType_cls s") (simp_all add: FeatureType_call_def)
  show ?thesis
    using found missing which other
    unfolding FeatureType_cls_values
    by blast
qed

text \<open>
  C9: \<^verbatim>\<open>ndim\<close> returns a rank exactly for the feature types for which
  \<^verbatim>\<open>contains_ndarrays\<close> is true, and \<^verbatim>\<open>None\<close> exactly for those for which it is false.
\<close>

theorem ndim_defined_iff_contains_ndarrays:
  "((\<exists>n. ndim ft = Inr (Some n)) \<longleftrightarrow> contains_ndarrays ft)
   \<and> (ndim ft = Inr None \<longleftrightarrow> contains_ndarrays ft = False)"
  by (cases ft) (simp_all add: ndim_def contains_ndarrays_def ndim_dict_def)

text \<open>
  C10: for a feature type that holds arrays, the rank is one feature dimension, plus
  two when the type is spatial, plus one when it is time-dependent.
\<close>

theorem ndim_decomposition:
  "contains_ndarrays ft \<Longrightarrow>
   ndim ft =
     Inr (Some (1 + (if is_spatial ft then 2 else 0)
                  + (if is_time_dependent ft then 1 else 0)))"
  by (cases ft)
    (simp_all add: ndim_def contains_ndarrays_def ndim_dict_def is_spatial_def
       is_time_dependent_def)

theorem ndim_decomposition_witness:
  "contains_ndarrays DATA_TIMELESS
   \<and> is_spatial DATA_TIMELESS
   \<and> is_time_dependent DATA_TIMELESS = False
   \<and> ndim DATA_TIMELESS = Inr (Some 3)"
proof -
  have arrays: "contains_ndarrays DATA_TIMELESS"
    by (simp add: contains_ndarrays_def)
  have spatial: "is_spatial DATA_TIMELESS"
    by (simp add: is_spatial_def)
  have timeless: "is_time_dependent DATA_TIMELESS = False"
    by (simp add: is_time_dependent_def)
  from ndim_decomposition [OF arrays] spatial timeless
  have "ndim DATA_TIMELESS = Inr (Some 3)"
    by simp
  with arrays spatial timeless show ?thesis
    by simp
qed

end
